theory Spec2Isabelle
  imports Complex_Main
begin

section \<open>Data model of wrapper.py\<close>

text \<open>
  The module \<^verbatim>\<open>wrapper.py\<close> defines one class, \<^verbatim>\<open>Sequence\<close>, a facade over
  collaborators that live in other modules (\<^verbatim>\<open>preprocessing.VectorTransformer\<close>,
  \<^verbatim>\<open>models.BiLSTMCRF\<close>, \<^verbatim>\<open>models.save_model\<close>, \<^verbatim>\<open>models.load_model\<close>,
  \<^verbatim>\<open>trainer.Trainer\<close>, \<^verbatim>\<open>load_data.load_data\<close>) and in libraries
  (\<^verbatim>\<open>seqeval.metrics.f1_score\<close>, \<^verbatim>\<open>os.path.join\<close>, \<^verbatim>\<open>open\<close>).
  The collaborators are parameters of the model: a record of functions, each returning
  either the exception it raised or its result. Values that the facade only passes along
  (embedding resource, preprocessor state, network, tensors, loss, callbacks, file system)
  are type variables.
\<close>

type_synonym token = string
type_synonym tag = string
type_synonym sentence = "token list"
type_synonym path = string

datatype error =
    OSError string
  | AttributeError string
  | IndexError string
  | CollaboratorError string

text \<open>The keyword arguments of the call \<^verbatim>\<open>BiLSTMCRF(num_labels=..., ...)\<close> in \<^verbatim>\<open>fit\<close>.\<close>

record BiLSTMCRF_args =
  kw_num_labels :: int
  kw_word_embedding_dim :: int
  kw_word_lstm_size :: int
  kw_char_lstm_size :: int
  kw_fc_dim :: int
  kw_dropout :: real
  kw_use_char :: bool
  kw_use_crf :: bool
  kw_nn_type :: string

text \<open>The pass-through arguments of \<^verbatim>\<open>fit\<close>, handed to \<^verbatim>\<open>Trainer.train\<close> as they are.\<close>

record 'cb train_opts =
  epochs :: int
  batch_size :: int
  verbose :: int
  callbacks :: "'cb list option"
  shuffle :: bool

text \<open>
  What \<^verbatim>\<open>fit\<close> can observe of a \<^verbatim>\<open>Trainer\<close> after \<^verbatim>\<open>train\<close> has returned: the
  network it was given, as training left it (the local variable \<^verbatim>\<open>model\<close> of \<^verbatim>\<open>fit\<close>),
  and the attributes \<^verbatim>\<open>best_model\<close> and \<^verbatim>\<open>best_model_report\<close> (\<open>None\<close> is Python's
  \<^verbatim>\<open>None\<close>).
\<close>

record 'm Trainer =
  trained_model :: 'm
  best_model :: "'m option"
  best_model_report :: "string option"

text \<open>
  The collaborators. A constructor followed by one method call is one function:
  \<open>build\<close> is \<^verbatim>\<open>BiLSTMCRF(...).build()\<close>, \<open>train\<close> is
  \<^verbatim>\<open>Trainer(model, preprocessor=p).train(...)\<close>. Functions that touch files take the file
  system \<open>'w\<close> and return the new one. \<open>p_fit\<close> and \<open>compile\<close> mutate their object in
  place in Python; here they return it. \<open>p_fit\<close> works on the attribute \<^verbatim>\<open>self.p\<close> itself,
  so when it raises it returns, with the exception, the state in which it left the
  preprocessor.
\<close>

record ('emb, 'p, 'm, 't, 'l, 'w, 'cb) collaborators =
  VectorTransformer :: "'emb \<Rightarrow> bool \<Rightarrow> error + 'p"
  p_fit :: "'p \<Rightarrow> sentence list \<Rightarrow> tag list list \<Rightarrow> error \<times> 'p + 'p"
  label_size :: "'p \<Rightarrow> int"
  vector_len :: "'p \<Rightarrow> int"
  p_transform :: "'p \<Rightarrow> sentence list \<Rightarrow> error + 't"
  p_inverse_transform :: "'p \<Rightarrow> 't \<Rightarrow> nat list \<Rightarrow> error + tag list list"
  p_save :: "'p \<Rightarrow> path \<Rightarrow> 'w \<Rightarrow> error + 'w"
  VectorTransformer_load :: "path \<Rightarrow> 'emb \<Rightarrow> 'w \<Rightarrow> error + 'p"
  build :: "BiLSTMCRF_args \<Rightarrow> error + 'm \<times> 'l"
  compile :: "'m \<Rightarrow> 'l \<Rightarrow> string \<Rightarrow> error + 'm"
  predict :: "'m \<Rightarrow> 't \<Rightarrow> error + 't"
  train :: "'m \<Rightarrow> 'p \<Rightarrow> sentence list \<Rightarrow> tag list list \<Rightarrow> sentence list option
              \<Rightarrow> tag list list option \<Rightarrow> 'cb train_opts \<Rightarrow> error + 'm Trainer"
  save_model :: "'m option \<Rightarrow> path \<Rightarrow> path \<Rightarrow> 'w \<Rightarrow> error + 'w"
  load_model :: "path \<Rightarrow> path \<Rightarrow> 'w \<Rightarrow> error + 'm"
  f1_score :: "tag list list \<Rightarrow> tag list list \<Rightarrow> error + real"
  load_data :: "path \<Rightarrow> 'w \<Rightarrow> error + sentence list \<times> tag list list \<times> string list list list"
  open_w :: "path \<Rightarrow> 'w \<Rightarrow> error + 'w"

text \<open>
  The attributes of a \<^verbatim>\<open>Sequence\<close> object. \<open>model = None\<close> is \<^verbatim>\<open>self.model = None\<close>;
  \<open>best_report = None\<close> is the attribute not yet assigned (only \<^verbatim>\<open>fit\<close> assigns it).
\<close>

record ('p, 'm) Sequence =
  model :: "'m option"
  tagger :: "'m option"
  p :: 'p
  char_embedding_dim :: int
  word_lstm_size :: int
  char_lstm_size :: int
  fc_dim :: int
  dropout :: real
  use_char :: bool
  use_crf :: bool
  initial_vocab :: "string list option"
  optimizer :: string
  lower :: bool
  nn_type :: string
  best_report :: "string option"

text \<open>
  What \<^verbatim>\<open>fit\<close> does that is visible from outside, in order: the collaborator calls and
  the two \<^verbatim>\<open>print\<close> statements.
\<close>

datatype 'cb event =
    is_PreprocessorFit: PreprocessorFit "sentence list" "tag list list"
  | is_ModelBuild: ModelBuild BiLSTMCRF_args
  | is_ModelCompile: ModelCompile string
  | is_TrainerTrain: TrainerTrain "sentence list" "tag list list" "sentence list option"
      "tag list list option" "'cb train_opts"
  | Print string

section \<open>Construction\<close>

definition Sequence_init ::
  "('emb, 'p, 'm, 't, 'l, 'w, 'cb) collaborators \<Rightarrow> 'emb \<Rightarrow> int \<Rightarrow> int \<Rightarrow> int \<Rightarrow> int \<Rightarrow> real
     \<Rightarrow> bool \<Rightarrow> bool \<Rightarrow> string list option \<Rightarrow> bool \<Rightarrow> string \<Rightarrow> string
     \<Rightarrow> error + ('p, 'm) Sequence" where
  "Sequence_init E embedding char_embedding_dim' word_lstm_size' char_lstm_size' fc_dim'
      dropout' use_char' use_crf' initial_vocab' lower' optimizer' nn_type' =
     (case VectorTransformer E embedding use_char' of
        Inl e \<Rightarrow> Inl e
      | Inr p' \<Rightarrow>
          Inr \<lparr> model = None, tagger = None, p = p',
                char_embedding_dim = char_embedding_dim',
                word_lstm_size = word_lstm_size',
                char_lstm_size = char_lstm_size',
                fc_dim = fc_dim',
                dropout = dropout',
                use_char = use_char',
                use_crf = use_crf',
                initial_vocab = initial_vocab',
                optimizer = optimizer',
                lower = lower',
                nn_type = nn_type',
                best_report = None \<rparr>)"

text \<open>\<^verbatim>\<open>Sequence(embedding)\<close>: every keyword argument at its default.\<close>

definition Sequence_default ::
  "('emb, 'p, 'm, 't, 'l, 'w, 'cb) collaborators \<Rightarrow> 'emb \<Rightarrow> error + ('p, 'm) Sequence" where
  "Sequence_default E embedding =
     Sequence_init E embedding 25 100 25 100 (1 / 2) True True None False ''adam'' ''GRU''"

section \<open>fit\<close>

text \<open>Python truthiness of a list, and of an optional list whose default is \<^verbatim>\<open>None\<close>.\<close>

definition truthy :: "'a list \<Rightarrow> bool" where
  "truthy xs = (xs \<noteq> [])"

definition truthy_opt :: "'a list option \<Rightarrow> bool" where
  "truthy_opt v = (case v of None \<Rightarrow> False | Some xs \<Rightarrow> truthy xs)"

definition build_kwargs ::
  "('emb, 'p, 'm, 't, 'l, 'w, 'cb) collaborators \<Rightarrow> ('p, 'm) Sequence \<Rightarrow> BiLSTMCRF_args" where
  "build_kwargs E self =
     \<lparr> kw_num_labels = label_size E (p self),
       kw_word_embedding_dim = vector_len E (p self),
       kw_word_lstm_size = word_lstm_size self,
       kw_char_lstm_size = char_lstm_size self,
       kw_fc_dim = fc_dim self,
       kw_dropout = dropout self,
       kw_use_char = use_char self,
       kw_use_crf = use_crf self,
       kw_nn_type = nn_type self \<rparr>"

text \<open>\<^verbatim>\<open>print(x)\<close> of an optional report: \<^verbatim>\<open>None\<close> prints as the word None.\<close>

definition str_report :: "string option \<Rightarrow> string" where
  "str_report r = (case r of None \<Rightarrow> ''None'' | Some s \<Rightarrow> s)"

text \<open>
  \<^verbatim>\<open>fit\<close> returns what it did (the events, the call that raised included), the object
  as the call leaves it, and the exception that ended it (\<open>None\<close>: it returned).
  When the preprocessor's \<^verbatim>\<open>fit\<close> raises, \<^verbatim>\<open>self.p\<close> is what that call left. The local
  variable \<^verbatim>\<open>model\<close> of \<^verbatim>\<open>fit\<close> is \<open>model0\<close> after the build and \<open>model1\<close> after
  \<^verbatim>\<open>compile\<close>.
\<close>

definition fit ::
  "('emb, 'p, 'm, 't, 'l, 'w, 'cb) collaborators \<Rightarrow> ('p, 'm) Sequence \<Rightarrow> sentence list
     \<Rightarrow> tag list list \<Rightarrow> sentence list option \<Rightarrow> tag list list option \<Rightarrow> 'cb train_opts
     \<Rightarrow> 'cb event list \<times> ('p, 'm) Sequence \<times> error option" where
  "fit E self x_train y_train x_valid y_valid opts =
     (case p_fit E (p self) x_train y_train of
        Inl (e, p1) \<Rightarrow> ([PreprocessorFit x_train y_train], self\<lparr>p := p1\<rparr>, Some e)
      | Inr p' \<Rightarrow>
          let self1 = self\<lparr>p := p'\<rparr>;
              kwargs = build_kwargs E self1;
              ev2 = [PreprocessorFit x_train y_train, ModelBuild kwargs]
          in (case build E kwargs of
                Inl e \<Rightarrow> (ev2, self1, Some e)
              | Inr (model0, loss) \<Rightarrow>
                  let ev3 = ev2 @ [ModelCompile (optimizer self1)]
                  in (case compile E model0 loss (optimizer self1) of
                        Inl e \<Rightarrow> (ev3, self1, Some e)
                      | Inr model1 \<Rightarrow>
                          let ev4 = ev3 @ [TrainerTrain x_train y_train x_valid y_valid opts]
                          in (case train E model1 (p self1) x_train y_train x_valid y_valid opts of
                                Inl e \<Rightarrow> (ev4, self1, Some e)
                              | Inr trainer \<Rightarrow>
                                  if truthy x_train \<and> truthy_opt y_valid then
                                    let self2 = self1\<lparr>model := best_model trainer,
                                                      best_report := best_model_report trainer\<rparr>
                                    in (ev4 @ [Print ''Best model report: '',
                                               Print (str_report (best_report self2))],
                                        self2, None)
                                  else (ev4, self1, None)))))"

section \<open>score and predict_sentence\<close>

definition no_model_message :: string where
  "no_model_message = ''Could not find a model. Call load(dir_path).''"

text \<open>The message of the \<^verbatim>\<open>AttributeError\<close> Python raises for \<^verbatim>\<open>None.predict\<close>.\<close>

definition none_predict_message :: string where
  "none_predict_message =
     [CHR 0x27] @ ''NoneType'' @ [CHR 0x27] @ '' object has no attribute '' @
     [CHR 0x27] @ ''predict'' @ [CHR 0x27]"

text \<open>
  \<^verbatim>\<open>if self.model:\<close> tests for \<^verbatim>\<open>None\<close>: a network object is truthy.
  \<^verbatim>\<open>map(len, y_test)\<close> is the list of the lengths of the gold tag sequences.
\<close>

definition score ::
  "('emb, 'p, 'm, 't, 'l, 'w, 'cb) collaborators \<Rightarrow> ('p, 'm) Sequence \<Rightarrow> sentence list
     \<Rightarrow> tag list list \<Rightarrow> error + real" where
  "score E self x_test y_test =
     (case model self of
        Some m \<Rightarrow>
          (case p_transform E (p self) x_test of
             Inl e \<Rightarrow> Inl e
           | Inr x \<Rightarrow>
               let lengths = map length y_test
               in (case predict E m x of
                     Inl e \<Rightarrow> Inl e
                   | Inr y \<Rightarrow>
                       (case p_inverse_transform E (p self) y lengths of
                          Inl e \<Rightarrow> Inl e
                        | Inr y_pred \<Rightarrow> f1_score E y_test y_pred)))
      | None \<Rightarrow> Inl (OSError no_model_message))"

definition predict_sentence ::
  "('emb, 'p, 'm, 't, 'l, 'w, 'cb) collaborators \<Rightarrow> ('p, 'm) Sequence \<Rightarrow> sentence
     \<Rightarrow> error + tag list" where
  "predict_sentence E self sentence =
     (case p_transform E (p self) [sentence] of
        Inl e \<Rightarrow> Inl e
      | Inr x_test \<Rightarrow>
          let lengths = [length sentence]
          in (case model self of
                None \<Rightarrow> Inl (AttributeError none_predict_message)
              | Some m \<Rightarrow>
                  (case predict E m x_test of
                     Inl e \<Rightarrow> Inl e
                   | Inr y \<Rightarrow>
                       (case p_inverse_transform E (p self) y lengths of
                          Inl e \<Rightarrow> Inl e
                        | Inr y_pred \<Rightarrow>
                            (case y_pred of
                               [] \<Rightarrow> Inl (IndexError ''list index out of range'')
                             | t # _ \<Rightarrow> Inr t)))))"

section \<open>predict_to_iob\<close>

definition newline :: char where
  "newline = CHR 0x0A"

text \<open>
  The body of the inner loop: the string \<^verbatim>\<open>to_write\<close> built for one token and passed to
  one \<^verbatim>\<open>output_file.write\<close>.
\<close>

definition to_write :: "token \<Rightarrow> tag \<Rightarrow> string list \<Rightarrow> string" where
  "to_write token prediction ctags =
     (let w = foldl (\<lambda>acc ctag. acc @ '' '' @ ctag) token ctags
      in if prediction \<noteq> '''' then w @ '' '' @ prediction
         else w @ '' O'' @ [newline])"

text \<open>
  The inner loop over \<^verbatim>\<open>zip(sentence, predictions, sent_ctags)\<close>: the strings written,
  in order. Python's \<^verbatim>\<open>zip\<close> stops at the shortest argument, as \<open>zip\<close> does.
\<close>

definition token_writes :: "sentence \<Rightarrow> tag list \<Rightarrow> string list list \<Rightarrow> string list" where
  "token_writes sentence predictions sent_ctags =
     map (\<lambda>(token, prediction, ctags). to_write token prediction ctags)
       (zip sentence (zip predictions sent_ctags))"

text \<open>
  The outer loop over \<^verbatim>\<open>zip(x, all_ctags)\<close>: every string written, in order, and the
  exception that ended the loop (\<open>None\<close>: it ran to its end). An exception of
  \<^verbatim>\<open>predict_sentence\<close> ends the loop; what was written for the sentences before stays
  written.
\<close>

fun iob_writes ::
  "('emb, 'p, 'm, 't, 'l, 'w, 'cb) collaborators \<Rightarrow> ('p, 'm) Sequence
     \<Rightarrow> (sentence \<times> string list list) list \<Rightarrow> string list \<times> error option" where
  "iob_writes E self [] = ([], None)"
| "iob_writes E self ((sentence, sent_ctags) # rest) =
     (case predict_sentence E self sentence of
        Inl e \<Rightarrow> ([], Some e)
      | Inr predictions \<Rightarrow>
          (case iob_writes E self rest of
             (ws, err) \<Rightarrow> (token_writes sentence predictions sent_ctags @ [[newline]] @ ws, err)))"

text \<open>
  \<^verbatim>\<open>predict_to_iob\<close>: the text written to \<^verbatim>\<open>output_path\<close> (the concatenation of the
  writes) and the exception that ended the call (\<open>None\<close>: it returned).
\<close>

definition predict_to_iob ::
  "('emb, 'p, 'm, 't, 'l, 'w, 'cb) collaborators \<Rightarrow> ('p, 'm) Sequence \<Rightarrow> path \<Rightarrow> path \<Rightarrow> 'w
     \<Rightarrow> string \<times> error option" where
  "predict_to_iob E self input_path output_path w =
     (case open_w E output_path w of
        Inl e \<Rightarrow> ([], Some e)
      | Inr w1 \<Rightarrow>
          (case load_data E input_path w1 of
             Inl e \<Rightarrow> ([], Some e)
           | Inr (x, _, all_ctags) \<Rightarrow>
               (case iob_writes E self (zip x all_ctags) of
                  (ws, err) \<Rightarrow> (concat ws, err))))"

section \<open>save and load\<close>

text \<open>\<^verbatim>\<open>os.path.join\<close> of two components, as \<^verbatim>\<open>posixpath.join\<close> computes it.\<close>

definition path_join :: "path \<Rightarrow> path \<Rightarrow> path" where
  "path_join a b =
     (if take 1 b = ''/'' then b
      else if a = [] \<or> last a = CHR ''/'' then a @ b
      else a @ ''/'' @ b)"


definition save ::
  "('emb, 'p, 'm, 't, 'l, 'w, 'cb) collaborators \<Rightarrow> ('p, 'm) Sequence \<Rightarrow> path \<Rightarrow> 'w
     \<Rightarrow> error + 'w" where
  "save E self model_path w =
     (let weights_file = path_join model_path ''weights.pkl'';
          params_file = path_join model_path ''params.pkl'';
          preprocessor_file = path_join model_path ''preprocessor.pkl''
      in case p_save E (p self) preprocessor_file w of
           Inl e \<Rightarrow> Inl e
         | Inr w1 \<Rightarrow> save_model E (model self) weights_file params_file w1)"

definition load ::
  "('emb, 'p, 'm, 't, 'l, 'w, 'cb) collaborators \<Rightarrow> path \<Rightarrow> 'emb \<Rightarrow> 'w
     \<Rightarrow> error + ('p, 'm) Sequence" where
  "load E model_path embedding_object w =
     (let weights_file = path_join model_path ''weights.pkl'';
          params_file = path_join model_path ''params.pkl'';
          preprocessor_file = path_join model_path ''preprocessor.pkl''
      in case Sequence_default E embedding_object of
           Inl e \<Rightarrow> Inl e
         | Inr self \<Rightarrow>
             (case load_model E weights_file params_file w of
                Inl e \<Rightarrow> Inl e
              | Inr m \<Rightarrow>
                  (case VectorTransformer_load E preprocessor_file embedding_object w of
                     Inl e \<Rightarrow> Inl e
                   | Inr p' \<Rightarrow> Inr (self\<lparr>model := Some m, p := p'\<rparr>))))"

section \<open>Inference with collaborators that keep state\<close>

text \<open>
  \<^verbatim>\<open>self.p\<close> and \<^verbatim>\<open>self.model\<close> are mutable objects, and \<^verbatim>\<open>predict_sentence\<close> hands them
  to \<^verbatim>\<open>transform\<close>, \<^verbatim>\<open>predict\<close> and \<^verbatim>\<open>inverse_transform\<close>. Here each of the three
  returns, with its result, the state in which it leaves its object, and
  \<^verbatim>\<open>predict_sentence\<close> returns the object as the call leaves it. The method itself assigns
  no attribute: \<^verbatim>\<open>self.p\<close> and \<^verbatim>\<open>self.model\<close> change only as the collaborators change
  them.
\<close>

record ('p, 'm, 't) inference =
  transform_st :: "'p \<Rightarrow> sentence list \<Rightarrow> (error + 't) \<times> 'p"
  predict_st :: "'m \<Rightarrow> 't \<Rightarrow> (error + 't) \<times> 'm"
  inverse_transform_st :: "'p \<Rightarrow> 't \<Rightarrow> nat list \<Rightarrow> (error + tag list list) \<times> 'p"

definition predict_sentence_st ::
  "('p, 'm, 't) inference \<Rightarrow> ('p, 'm) Sequence \<Rightarrow> sentence
     \<Rightarrow> (error + tag list) \<times> ('p, 'm) Sequence" where
  "predict_sentence_st I self sentence =
     (case transform_st I (p self) [sentence] of
        (Inl e, p1) \<Rightarrow> (Inl e, self\<lparr>p := p1\<rparr>)
      | (Inr x_test, p1) \<Rightarrow>
          let self1 = self\<lparr>p := p1\<rparr>;
              lengths = [length sentence]
          in (case model self1 of
                None \<Rightarrow> (Inl (AttributeError none_predict_message), self1)
              | Some m \<Rightarrow>
                  (case predict_st I m x_test of
                     (Inl e, m1) \<Rightarrow> (Inl e, self1\<lparr>model := Some m1\<rparr>)
                   | (Inr y, m1) \<Rightarrow>
                       let self2 = self1\<lparr>model := Some m1\<rparr>
                       in (case inverse_transform_st I (p self2) y lengths of
                             (Inl e, p2) \<Rightarrow> (Inl e, self2\<lparr>p := p2\<rparr>)
                           | (Inr y_pred, p2) \<Rightarrow>
                               (case y_pred of
                                  [] \<Rightarrow> (Inl (IndexError ''list index out of range''),
                                         self2\<lparr>p := p2\<rparr>)
                                | t # _ \<Rightarrow> (Inr t, self2\<lparr>p := p2\<rparr>))))))"


text \<open>
  Modelled from the spec: \<^verbatim>\<open>VectorTransformer.transform\<close>,
  \<^verbatim>\<open>VectorTransformer.inverse_transform\<close> and the network's \<^verbatim>\<open>predict\<close> are not part of
  \<^verbatim>\<open>wrapper.py\<close>. The spec says that the preprocessor state is produced by its \<^verbatim>\<open>fit\<close>
  and is required unchanged by every later transform and inverse transform, and that
  inference works on fixed vocabulary and model state: the three calls leave their
  object as they found it.
\<close>

definition read_only :: "('p, 'm, 't) inference \<Rightarrow> bool" where
  "read_only I =
     ((\<forall>pr x. snd (transform_st I pr x) = pr) \<and>
      (\<forall>m x. snd (predict_st I m x) = m) \<and>
      (\<forall>pr y lengths. snd (inverse_transform_st I pr y lengths) = pr))"


section \<open>Contracts of the persistence collaborators\<close>

text \<open>
  Modelled from the spec: \<^verbatim>\<open>models.save_model\<close>, \<^verbatim>\<open>models.load_model\<close>,
  \<^verbatim>\<open>VectorTransformer.save\<close> and \<^verbatim>\<open>VectorTransformer.load\<close> are not part of
  \<^verbatim>\<open>wrapper.py\<close>. The spec says of the three files that each "round-trips through the
  matching load function", and that the embedding resource passed to \<^verbatim>\<open>load\<close> must be
  the one used when the bundle was saved. The three predicates say that much and no more.
\<close>




section \<open>Lines of a text\<close>

text \<open>
  The number of lines of a text, as a reader of the output file counts them: one per
  line terminator, and one more for a last line without a terminator.
\<close>

definition line_count :: "string \<Rightarrow> nat" where
  "line_count text =
     length (filter (\<lambda>c. c = newline) text) +
     (if text \<noteq> [] \<and> last text \<noteq> newline then 1 else 0)"

section \<open>Test doubles\<close>

text \<open>
  Small executable collaborators, used to run the facade on concrete inputs. The
  preprocessor state is the list of labels seen, a network is a table from tokens to tags
  (tokens not in it are tagged \<^verbatim>\<open>O\<close>), a tensor is a list of string lists, and the file
  system maps paths to what was stored there.
\<close>

datatype blob =
    WeightsBlob "(token \<times> tag) list"
  | ParamsBlob
  | PreprocessorBlob "tag list"
  | CorpusBlob "sentence list" "tag list list" "string list list list"
  | TextBlob

definition toy_tag :: "(token \<times> tag) list \<Rightarrow> token \<Rightarrow> tag" where
  "toy_tag m t = (case map_of m t of None \<Rightarrow> ''O'' | Some g \<Rightarrow> g)"

definition toy_train ::
  "(token \<times> tag) list \<Rightarrow> tag list \<Rightarrow> sentence list \<Rightarrow> tag list list \<Rightarrow> sentence list option
     \<Rightarrow> tag list list option \<Rightarrow> unit train_opts \<Rightarrow> error + (token \<times> tag) list Trainer" where
  "toy_train m pr x y xv yv opts =
     Inr \<lparr> trained_model = zip (concat x) (concat y),
           best_model = (if truthy_opt yv then Some (zip (concat x) (concat y)) else None),
           best_model_report = (if truthy_opt yv then Some ''f1: 1.0'' else None) \<rparr>"

definition toy ::
  "(nat, tag list, (token \<times> tag) list, string list list, nat, path \<rightharpoonup> blob, unit) collaborators"
  where
  "toy =
     \<lparr> VectorTransformer = (\<lambda>emb uc. Inr []),
       p_fit = (\<lambda>pr x y. Inr (remdups (concat y))),
       label_size = (\<lambda>pr. int (length pr)),
       vector_len = (\<lambda>pr. 3),
       p_transform = (\<lambda>pr x. Inr x),
       p_inverse_transform = (\<lambda>pr y lengths. Inr (map (\<lambda>(n, ts). take n ts) (zip lengths y))),
       p_save = (\<lambda>pr f w. Inr (w(f \<mapsto> PreprocessorBlob pr))),
       VectorTransformer_load =
         (\<lambda>f emb w. case w f of
                       Some (PreprocessorBlob pr) \<Rightarrow> Inr pr
                     | _ \<Rightarrow> Inl (CollaboratorError ''no preprocessor file'')),
       build = (\<lambda>kw. Inr ([], 0)),
       compile = (\<lambda>m l opt. Inr m),
       predict = (\<lambda>m x. Inr (map (map (toy_tag m)) x)),
       train = toy_train,
       save_model =
         (\<lambda>mo wf pf w. case mo of
                          None \<Rightarrow> Inl (CollaboratorError ''no model to save'')
                        | Some m \<Rightarrow> Inr (w(wf \<mapsto> WeightsBlob m, pf \<mapsto> ParamsBlob))),
       load_model =
         (\<lambda>wf pf w. case w wf of
                       Some (WeightsBlob m) \<Rightarrow>
                         (case w pf of
                            Some ParamsBlob \<Rightarrow> Inr m
                          | _ \<Rightarrow> Inl (CollaboratorError ''no params file''))
                     | _ \<Rightarrow> Inl (CollaboratorError ''no weights file'')),
       f1_score = (\<lambda>yt yp. Inr (if yt = yp then 1 else 0)),
       load_data =
         (\<lambda>f w. case w f of
                   Some (CorpusBlob x y c) \<Rightarrow> Inr (x, y, c)
                 | _ \<Rightarrow> Inl (CollaboratorError ''no corpus file'')),
       open_w = (\<lambda>f w. Inr (w(f \<mapsto> TextBlob))) \<rparr>"

text \<open>\<^verbatim>\<open>Sequence(embedding)\<close> over the test doubles, and the default pass-through arguments
  of \<^verbatim>\<open>fit\<close>.\<close>

definition toy_fresh :: "(tag list, (token \<times> tag) list) Sequence" where
  "toy_fresh =
     \<lparr> model = None, tagger = None, p = [],
       char_embedding_dim = 25, word_lstm_size = 100, char_lstm_size = 25, fc_dim = 100,
       dropout = 1 / 2, use_char = True, use_crf = True, initial_vocab = None,
       optimizer = ''adam'', lower = False, nn_type = ''GRU'', best_report = None \<rparr>"

definition default_opts :: "unit train_opts" where
  "default_opts =
     \<lparr> epochs = 1, batch_size = 32, verbose = 1, callbacks = None, shuffle = True \<rparr>"

text \<open>An object with an adopted network and a fitted preprocessor.\<close>

definition toy_trained :: "(tag list, (token \<times> tag) list) Sequence" where
  "toy_trained =
     toy_fresh\<lparr>model := Some [(''John'', ''B-PER''), (''Paris'', ''B-LOC'')],
               p := [''O'', ''B-PER'', ''B-LOC'']\<rparr>"

text \<open>
  The corpus of two sentences used as the example of the export format, as
  \<^verbatim>\<open>load_data\<close> returns it: sentences, gold tags, auxiliary columns per token.
\<close>

definition spec_corpus :: blob where
  "spec_corpus =
     CorpusBlob [[''John'', ''lives'', ''in'', ''Paris''], [''Hi'']]
       [[''B-PER'', ''O'', ''O'', ''B-LOC''], [''O'']]
       [[[''NNP''], [''VBZ''], [''IN''], [''NNP'']], [[''UH'']]]"

text \<open>
  The test doubles with a preprocessor whose \<^verbatim>\<open>fit\<close> collects the labels and then
  raises when a sentence and its tag sequence differ in length.
\<close>

definition toy_strict ::
  "(nat, tag list, (token \<times> tag) list, string list list, nat, path \<rightharpoonup> blob, unit) collaborators"
  where
  "toy_strict =
     toy\<lparr>p_fit :=
           (\<lambda>pr x y. if map length x = map length y then Inr (remdups (concat y))
                      else Inl (CollaboratorError ''lengths differ'', remdups (concat y)))\<rparr>"

text \<open>
  A preprocessor that counts the calls of its \<^verbatim>\<open>transform\<close> and inverts to \<^verbatim>\<open>O\<close> from
  the second call on: inference collaborators that do not keep their state.
\<close>

definition drifting :: "(nat, (token \<times> tag) list, string list list) inference" where
  "drifting =
     \<lparr> transform_st = (\<lambda>n x. (Inr x, Suc n)),
       predict_st = (\<lambda>m x. (Inr (map (map (toy_tag m)) x), m)),
       inverse_transform_st =
         (\<lambda>n y lengths. (Inr (if n \<le> 1 then y else map (map (\<lambda>t. ''O'')) y), n)) \<rparr>"

definition drifting_object :: "(nat, (token \<times> tag) list) Sequence" where
  "drifting_object =
     \<lparr> model = Some [(''John'', ''B-PER'')], tagger = None, p = 0,
       char_embedding_dim = 25, word_lstm_size = 100, char_lstm_size = 25, fc_dim = 100,
       dropout = 1 / 2, use_char = True, use_crf = True, initial_vocab = None,
       optimizer = ''adam'', lower = False, nn_type = ''GRU'', best_report = None \<rparr>"

section \<open>Properties\<close>

lemma toy_fresh_constructed: "Sequence_default toy 0 = Inr toy_fresh"
  by (simp add: Sequence_default_def Sequence_init_def toy_def toy_fresh_def)

subsection \<open>The shape of every run of fit\<close>

text \<open>
  Every run of \<^verbatim>\<open>fit\<close> is one of five: the preprocessor's \<^verbatim>\<open>fit\<close> raised, the build
  raised, \<^verbatim>\<open>compile\<close> raised, the trainer raised, or all four returned.
\<close>

lemma fit_cases:
  assumes "fit E self x y xv yv opts = (tr, s', err)"
  shows
   "(\<exists>e p1. p_fit E (p self) x y = Inl (e, p1) \<and> tr = [PreprocessorFit x y]
        \<and> s' = self\<lparr>p := p1\<rparr> \<and> err = Some e)
  \<or> (\<exists>p' e. p_fit E (p self) x y = Inr p' \<and> build E (build_kwargs E (self\<lparr>p := p'\<rparr>)) = Inl e
        \<and> tr = [PreprocessorFit x y, ModelBuild (build_kwargs E (self\<lparr>p := p'\<rparr>))]
        \<and> s' = self\<lparr>p := p'\<rparr> \<and> err = Some e)
  \<or> (\<exists>p' m0 l e. p_fit E (p self) x y = Inr p'
        \<and> build E (build_kwargs E (self\<lparr>p := p'\<rparr>)) = Inr (m0, l)
        \<and> compile E m0 l (optimizer self) = Inl e
        \<and> tr = [PreprocessorFit x y, ModelBuild (build_kwargs E (self\<lparr>p := p'\<rparr>)),
                ModelCompile (optimizer self)]
        \<and> s' = self\<lparr>p := p'\<rparr> \<and> err = Some e)
  \<or> (\<exists>p' m0 l m1 e. p_fit E (p self) x y = Inr p'
        \<and> build E (build_kwargs E (self\<lparr>p := p'\<rparr>)) = Inr (m0, l)
        \<and> compile E m0 l (optimizer self) = Inr m1
        \<and> train E m1 p' x y xv yv opts = Inl e
        \<and> tr = [PreprocessorFit x y, ModelBuild (build_kwargs E (self\<lparr>p := p'\<rparr>)),
                ModelCompile (optimizer self), TrainerTrain x y xv yv opts]
        \<and> s' = self\<lparr>p := p'\<rparr> \<and> err = Some e)
  \<or> (\<exists>p' m0 l m1 t. p_fit E (p self) x y = Inr p'
        \<and> build E (build_kwargs E (self\<lparr>p := p'\<rparr>)) = Inr (m0, l)
        \<and> compile E m0 l (optimizer self) = Inr m1
        \<and> train E m1 p' x y xv yv opts = Inr t
        \<and> take 4 tr = [PreprocessorFit x y, ModelBuild (build_kwargs E (self\<lparr>p := p'\<rparr>)),
                ModelCompile (optimizer self), TrainerTrain x y xv yv opts]
        \<and> (if truthy x \<and> truthy_opt yv
            then tr = [PreprocessorFit x y, ModelBuild (build_kwargs E (self\<lparr>p := p'\<rparr>)),
                ModelCompile (optimizer self), TrainerTrain x y xv yv opts,
                Print ''Best model report: '', Print (str_report (best_model_report t))]
              \<and> s' = self\<lparr>p := p', model := best_model t, best_report := best_model_report t\<rparr>
            else tr = [PreprocessorFit x y, ModelBuild (build_kwargs E (self\<lparr>p := p'\<rparr>)),
                ModelCompile (optimizer self), TrainerTrain x y xv yv opts]
              \<and> s' = self\<lparr>p := p'\<rparr>)
        \<and> err = None)"
  using assms
  by (auto simp: fit_def Let_def split: sum.splits prod.splits if_splits)


subsection \<open>C3: fit and malformed training pairs\<close>

text \<open>
  Claim C3 says that \<^verbatim>\<open>fit\<close> raises a ShapeMismatch condition for length-mismatched
  training pairs before the preprocessor is fitted and before the model builder or the
  trainer is invoked. The code has no such check: the first statement of \<^verbatim>\<open>fit\<close> is
  \<^verbatim>\<open>self.p.fit(x_train, y_train)\<close>, on the data as given. What holds, for every call
  (mismatched pairs included): the first thing \<^verbatim>\<open>fit\<close> does is to invoke the
  preprocessor's \<^verbatim>\<open>fit\<close> with \<^verbatim>\<open>x_train\<close> and \<^verbatim>\<open>y_train\<close>; if that call raises, \<^verbatim>\<open>fit\<close>
  ends with that exception and nothing else was invoked (the preprocessor is as that
  call left it); and if the four collaborator calls return, \<^verbatim>\<open>fit\<close> returns normally.
\<close>

theorem fit_checks_no_lengths:
  "(\<exists>rest. fst (fit E self x y xv yv opts) = PreprocessorFit x y # rest) \<and>
   (\<forall>e p1. p_fit E (p self) x y = Inl (e, p1) \<longrightarrow>
        fit E self x y xv yv opts = ([PreprocessorFit x y], self\<lparr>p := p1\<rparr>, Some e)) \<and>
   (\<forall>p' m0 l m1 t.
      p_fit E (p self) x y = Inr p' \<longrightarrow>
      build E (build_kwargs E (self\<lparr>p := p'\<rparr>)) = Inr (m0, l) \<longrightarrow>
      compile E m0 l (optimizer self) = Inr m1 \<longrightarrow>
      train E m1 p' x y xv yv opts = Inr t \<longrightarrow>
      snd (snd (fit E self x y xv yv opts)) = None)"
  by (auto simp: fit_def Let_def split: sum.splits prod.splits)

text \<open>
  The amended C3 at a call whose only sentence has two tokens and one tag: with
  collaborators that do not object \<^verbatim>\<open>fit\<close> returns, and with a preprocessor that raises
  on the mismatch \<^verbatim>\<open>fit\<close> ends with that exception after this one call, the
  preprocessor holding what its \<^verbatim>\<open>fit\<close> had collected.
\<close>

theorem fit_checks_no_lengths_witness:
  "length (hd [[''a'', ''b'']]) \<noteq> length (hd [[''O'']]) \<and>
   (\<exists>rest. fst (fit toy toy_fresh [[''a'', ''b'']] [[''O'']] None None default_opts)
      = PreprocessorFit [[''a'', ''b'']] [[''O'']] # rest) \<and>
   snd (snd (fit toy toy_fresh [[''a'', ''b'']] [[''O'']] None None default_opts)) = None \<and>
   p_fit toy_strict (p toy_fresh) [[''a'', ''b'']] [[''O'']] =
     Inl (CollaboratorError ''lengths differ'', [''O'']) \<and>
   fit toy_strict toy_fresh [[''a'', ''b'']] [[''O'']] None None default_opts =
     ([PreprocessorFit [[''a'', ''b'']] [[''O'']]], toy_fresh\<lparr>p := [''O'']\<rparr>,
      Some (CollaboratorError ''lengths differ''))"
proof -
  have 1: "p_fit toy (p toy_fresh) [[''a'', ''b'']] [[''O'']] = Inr [''O'']"
    by (simp add: toy_def)
  have 2: "build toy (build_kwargs toy (toy_fresh\<lparr>p := [''O'']\<rparr>)) = Inr ([], 0)"
    by (simp add: toy_def)
  have 3: "compile toy [] 0 (optimizer toy_fresh) = Inr []"
    by (simp add: toy_def)
  have 4: "train toy [] [''O''] [[''a'', ''b'']] [[''O'']] None None default_opts
             = Inr \<lparr> trained_model = [(''a'', ''O'')], best_model = None, best_model_report = None \<rparr>"
    by (simp add: toy_def toy_train_def truthy_opt_def)
  have 5: "p_fit toy_strict (p toy_fresh) [[''a'', ''b'']] [[''O'']] =
             Inl (CollaboratorError ''lengths differ'', [''O''])"
    by (simp add: toy_strict_def)
  from fit_checks_no_lengths [of toy toy_fresh "[[''a'', ''b'']]" "[[''O'']]" None None default_opts]
    1 2 3 4
  have returns: "(\<exists>rest. fst (fit toy toy_fresh [[''a'', ''b'']] [[''O'']] None None default_opts)
      = PreprocessorFit [[''a'', ''b'']] [[''O'']] # rest) \<and>
      snd (snd (fit toy toy_fresh [[''a'', ''b'']] [[''O'']] None None default_opts)) = None"
    by simp
  from fit_checks_no_lengths [of toy_strict toy_fresh "[[''a'', ''b'']]" "[[''O'']]" None None
      default_opts] 5
  have raises: "fit toy_strict toy_fresh [[''a'', ''b'']] [[''O'']] None None default_opts =
     ([PreprocessorFit [[''a'', ''b'']] [[''O'']]], toy_fresh\<lparr>p := [''O'']\<rparr>,
      Some (CollaboratorError ''lengths differ''))"
    by blast
  from returns raises 5 show ?thesis by simp
qed

text \<open>
  C3 as stated fails: on a sentence of two tokens with one tag, and collaborators that
  do not object, \<^verbatim>\<open>fit\<close> fits the preprocessor, builds, compiles, trains and returns.
\<close>

theorem fit_checks_no_lengths_counterexample:
  "length (hd [[''a'', ''b'']]) \<noteq> length (hd [[''O'']]) \<and>
   fit toy toy_fresh [[''a'', ''b'']] [[''O'']] None None default_opts =
     ([PreprocessorFit [[''a'', ''b'']] [[''O'']],
       ModelBuild \<lparr> kw_num_labels = 1, kw_word_embedding_dim = 3, kw_word_lstm_size = 100,
                    kw_char_lstm_size = 25, kw_fc_dim = 100, kw_dropout = 1 / 2,
                    kw_use_char = True, kw_use_crf = True, kw_nn_type = ''GRU'' \<rparr>,
       ModelCompile ''adam'',
       TrainerTrain [[''a'', ''b'']] [[''O'']] None None default_opts],
      toy_fresh\<lparr>p := [''O'']\<rparr>, None)"
  by (simp add: fit_def toy_def toy_train_def toy_fresh_def build_kwargs_def truthy_opt_def
      truthy_def Let_def)

subsection \<open>C6: the order of the steps of fit\<close>




subsection \<open>C4: which model fit adopts\<close>

text \<open>
  Claim C4 says that after \<^verbatim>\<open>fit\<close> returns, (a) with non-empty \<^verbatim>\<open>x_train\<close> and
  \<^verbatim>\<open>y_valid\<close> the live model is the trainer's best snapshot and the best report is
  recorded, and (b) without validation labels the live model is whatever model the trainer
  leaves as current. Part (a) is what the code does. Part (b) is not: the guard
  \<^verbatim>\<open>if x_train and y_valid\<close> is the only place where \<^verbatim>\<open>fit\<close> assigns \<^verbatim>\<open>self.model\<close>, so
  without validation labels (or with an empty \<^verbatim>\<open>x_train\<close>) \<^verbatim>\<open>model\<close> and \<^verbatim>\<open>best_report\<close>
  stay as they were before the call, and the network that was trained is not adopted.
\<close>

theorem fit_adoption:
  assumes "fit E self x y xv yv opts = (tr, s', None)"
  shows
    "(x \<noteq> [] \<and> (\<exists>v. yv = Some v \<and> v \<noteq> []) \<longrightarrow>
        (\<exists>p' m0 l m1 t.
           p_fit E (p self) x y = Inr p' \<and>
           build E (build_kwargs E (self\<lparr>p := p'\<rparr>)) = Inr (m0, l) \<and>
           compile E m0 l (optimizer self) = Inr m1 \<and>
           train E m1 p' x y xv yv opts = Inr t \<and>
           model s' = best_model t \<and> best_report s' = best_model_report t)) \<and>
     (\<not> (x \<noteq> [] \<and> (\<exists>v. yv = Some v \<and> v \<noteq> [])) \<longrightarrow>
        model s' = model self \<and> best_report s' = best_report self)"
  using fit_cases [OF assms]
  by (elim disjE exE conjE)
     (auto simp: truthy_def truthy_opt_def split: if_splits option.splits)

text \<open>
  The amended C4 at a run with validation labels: the adopted model is the trainer's
  \<^verbatim>\<open>best_model\<close>.
\<close>

theorem fit_adoption_witness:
  "fit toy toy_fresh [[''a'']] [[''O'']] (Some [[''b'']]) (Some [[''O'']]) default_opts =
     ([PreprocessorFit [[''a'']] [[''O'']],
       ModelBuild (build_kwargs toy (toy_fresh\<lparr>p := [''O'']\<rparr>)),
       ModelCompile ''adam'',
       TrainerTrain [[''a'']] [[''O'']] (Some [[''b'']]) (Some [[''O'']]) default_opts,
       Print ''Best model report: '', Print ''f1: 1.0''],
      toy_fresh\<lparr>p := [''O''], model := Some [(''a'', ''O'')], best_report := Some ''f1: 1.0''\<rparr>,
      None) \<and>
   (\<exists>t. train toy [] [''O''] [[''a'']] [[''O'']] (Some [[''b'']]) (Some [[''O'']]) default_opts = Inr t \<and>
        model (toy_fresh\<lparr>p := [''O''], model := Some [(''a'', ''O'')], best_report := Some ''f1: 1.0''\<rparr>)
          = best_model t)"
proof -
  have run: "fit toy toy_fresh [[''a'']] [[''O'']] (Some [[''b'']]) (Some [[''O'']]) default_opts =
     ([PreprocessorFit [[''a'']] [[''O'']],
       ModelBuild (build_kwargs toy (toy_fresh\<lparr>p := [''O'']\<rparr>)),
       ModelCompile ''adam'',
       TrainerTrain [[''a'']] [[''O'']] (Some [[''b'']]) (Some [[''O'']]) default_opts,
       Print ''Best model report: '', Print ''f1: 1.0''],
      toy_fresh\<lparr>p := [''O''], model := Some [(''a'', ''O'')], best_report := Some ''f1: 1.0''\<rparr>,
      None)"
    by (simp add: fit_def toy_def toy_train_def toy_fresh_def build_kwargs_def truthy_opt_def
        truthy_def Let_def str_report_def)
  have c: "compile toy [] 0 (optimizer toy_fresh) = Inr []" "p_fit toy (p toy_fresh) [[''a'']] [[''O'']] = Inr [''O'']"
    "build toy (build_kwargs toy (toy_fresh\<lparr>p := [''O'']\<rparr>)) = Inr ([], 0)"
    by (simp_all add: toy_def)
  from fit_adoption [OF run] c run show ?thesis
    by auto
qed

text \<open>
  C4 as stated fails: a fresh object, trained without validation labels. The trainer
  leaves a trained network, \<^verbatim>\<open>fit\<close> returns, and \<^verbatim>\<open>model\<close> is still \<^verbatim>\<open>None\<close>.
\<close>

theorem fit_adoption_counterexample:
  "train toy [] [''O''] [[''a'']] [[''O'']] None None default_opts =
     Inr \<lparr> trained_model = [(''a'', ''O'')], best_model = None, best_model_report = None \<rparr> \<and>
   fit toy toy_fresh [[''a'']] [[''O'']] None None default_opts =
     ([PreprocessorFit [[''a'']] [[''O'']],
       ModelBuild (build_kwargs toy (toy_fresh\<lparr>p := [''O'']\<rparr>)),
       ModelCompile ''adam'',
       TrainerTrain [[''a'']] [[''O'']] None None default_opts],
      toy_fresh\<lparr>p := [''O'']\<rparr>, None) \<and>
   model (toy_fresh\<lparr>p := [''O'']\<rparr>) = None \<and>
   model (toy_fresh\<lparr>p := [''O'']\<rparr>) \<noteq> Some [(''a'', ''O'')]"
  by (simp add: fit_def toy_def toy_train_def toy_fresh_def build_kwargs_def truthy_opt_def
      truthy_def Let_def)

subsection \<open>C5: score\<close>

text \<open>
  Claim C5: with a model adopted, \<^verbatim>\<open>score\<close> transforms \<^verbatim>\<open>x_test\<close> with the object's
  preprocessor, predicts, inverts the prediction with the lengths of the sentences of
  \<^verbatim>\<open>y_test\<close> (not of the prediction), and returns \<^verbatim>\<open>f1_score(y_test, y_pred)\<close>. The
  metric itself is seqeval's and is a parameter here. \<^verbatim>\<open>score\<close> returns \<open>f\<close> exactly when
  the four steps return in this order and the last returns \<open>f\<close>; it raises \<open>e\<close> exactly
  when the first of them to raise raises \<open>e\<close>.
\<close>

theorem score_data_flow:
  assumes "model self = Some m"
  shows
    "(score E self x_test y_test = Inr f \<longleftrightarrow>
        (\<exists>x y y_pred.
           p_transform E (p self) x_test = Inr x \<and>
           predict E m x = Inr y \<and>
           p_inverse_transform E (p self) y (map length y_test) = Inr y_pred \<and>
           f1_score E y_test y_pred = Inr f)) \<and>
     (score E self x_test y_test = Inl e \<longleftrightarrow>
        p_transform E (p self) x_test = Inl e \<or>
        (\<exists>x. p_transform E (p self) x_test = Inr x \<and>
           (predict E m x = Inl e \<or>
            (\<exists>y. predict E m x = Inr y \<and>
               (p_inverse_transform E (p self) y (map length y_test) = Inl e \<or>
                (\<exists>y_pred. p_inverse_transform E (p self) y (map length y_test) = Inr y_pred \<and>
                   f1_score E y_test y_pred = Inl e))))))"
  using assms by (auto simp: score_def Let_def split: sum.splits)

text \<open>
  C5 on a test sentence of four tokens with two gold tags: the prediction has four tags,
  and the two that are compared are cut to the length of the gold sequence.
\<close>

theorem score_data_flow_witness:
  "model toy_trained = Some [(''John'', ''B-PER''), (''Paris'', ''B-LOC'')] \<and>
   score toy toy_trained [[''John'', ''lives'', ''in'', ''Paris'']] [[''B-PER'', ''O'']] = Inr 1"
proof -
  have m: "model toy_trained = Some [(''John'', ''B-PER''), (''Paris'', ''B-LOC'')]"
    by (simp add: toy_trained_def)
  have 1: "p_transform toy (p toy_trained) [[''John'', ''lives'', ''in'', ''Paris'']]
             = Inr [[''John'', ''lives'', ''in'', ''Paris'']]"
    by (simp add: toy_def)
  have 2: "predict toy [(''John'', ''B-PER''), (''Paris'', ''B-LOC'')] [[''John'', ''lives'', ''in'', ''Paris'']]
             = Inr [[''B-PER'', ''O'', ''O'', ''B-LOC'']]"
    by (simp add: toy_def toy_tag_def)
  have 3: "p_inverse_transform toy (p toy_trained) [[''B-PER'', ''O'', ''O'', ''B-LOC'']]
             (map length [[''B-PER'', ''O'']]) = Inr [[''B-PER'', ''O'']]"
    by (simp add: toy_def)
  have 4: "f1_score toy [[''B-PER'', ''O'']] [[''B-PER'', ''O'']] = Inr 1"
    by (simp add: toy_def)
  from score_data_flow [OF m, of toy "[[''John'', ''lives'', ''in'', ''Paris'']]" "[[''B-PER'', ''O'']]" 1]
    1 2 3 4 m
  show ?thesis by auto
qed

subsection \<open>C1: inference without a model\<close>

text \<open>
  Claim C1 says that on an object that has no model, both \<^verbatim>\<open>score\<close> and
  \<^verbatim>\<open>predict_sentence\<close> raise the model-not-loaded condition with its message. \<^verbatim>\<open>score\<close>
  does (\<^verbatim>\<open>OSError('Could not find a model. Call load(dir_path).')\<close>).
  \<^verbatim>\<open>predict_sentence\<close> has no such check: it first calls the preprocessor's transform, and
  then fails at \<^verbatim>\<open>self.model.predict\<close> with the \<^verbatim>\<open>AttributeError\<close> of \<^verbatim>\<open>None\<close> (or with
  whatever transform raised). It never returns a prediction. The last three conjuncts run
  both on \<^verbatim>\<open>Sequence(embedding)\<close> over the test doubles.
\<close>

theorem predict_sentence_without_model:
  "predict_sentence E (self\<lparr>model := None\<rparr>) sentence =
     (case p_transform E (p self) [sentence] of
        Inl e \<Rightarrow> Inl e
      | Inr x \<Rightarrow> Inl (AttributeError none_predict_message)) \<and>
   score E (self\<lparr>model := None\<rparr>) x_test y_test = Inl (OSError no_model_message) \<and>
   Sequence_default toy 0 = Inr toy_fresh \<and>
   predict_sentence toy toy_fresh [''Ala''] = Inl (AttributeError none_predict_message) \<and>
   score toy toy_fresh [[''Ala'']] [[''O'']] = Inl (OSError no_model_message)"
  by (simp add: predict_sentence_def score_def toy_fresh_constructed Let_def
      split: sum.splits)
     (simp add: toy_def toy_fresh_def)

subsection \<open>C9: save without a model\<close>

text \<open>
  Claim C9: \<^verbatim>\<open>save\<close> on an object whose model is \<^verbatim>\<open>None\<close> checks nothing: it writes the
  preprocessor state, and hands \<^verbatim>\<open>None\<close> to \<^verbatim>\<open>save_model\<close>; whatever \<^verbatim>\<open>save\<close> raises
  then is what one of the two collaborators raised. On the same object \<^verbatim>\<open>score\<close> does raise
  its own error.
\<close>

theorem save_without_model:
  assumes "model self = None"
  shows
    "(\<forall>e. p_save E (p self) (path_join model_path ''preprocessor.pkl'') w = Inl e \<longrightarrow>
          save E self model_path w = Inl e) \<and>
     (\<forall>w1. p_save E (p self) (path_join model_path ''preprocessor.pkl'') w = Inr w1 \<longrightarrow>
          save E self model_path w =
            save_model E None (path_join model_path ''weights.pkl'')
              (path_join model_path ''params.pkl'') w1) \<and>
     score E self x_test y_test = Inl (OSError no_model_message)"
  using assms by (simp add: save_def score_def Let_def)

text \<open>
  C9 on a fresh object: the preprocessor file is written, and the error is the one the
  persistence collaborator raises for \<^verbatim>\<open>None\<close>.
\<close>

theorem save_without_model_witness:
  "model toy_fresh = None \<and>
   p_save toy (p toy_fresh) (path_join ''bundle'' ''preprocessor.pkl'') Map.empty =
     Inr [''bundle/preprocessor.pkl'' \<mapsto> PreprocessorBlob []] \<and>
   save toy toy_fresh ''bundle'' Map.empty =
     save_model toy None ''bundle/weights.pkl'' ''bundle/params.pkl''
       [''bundle/preprocessor.pkl'' \<mapsto> PreprocessorBlob []] \<and>
   save toy toy_fresh ''bundle'' Map.empty = Inl (CollaboratorError ''no model to save'')"
proof -
  have m: "model toy_fresh = None" by (simp add: toy_fresh_def)
  have 1: "p_save toy (p toy_fresh) (path_join ''bundle'' ''preprocessor.pkl'') Map.empty =
     Inr [''bundle/preprocessor.pkl'' \<mapsto> PreprocessorBlob []]"
    by (simp add: toy_def toy_fresh_def path_join_def)
  have 2: "path_join ''bundle'' ''weights.pkl'' = ''bundle/weights.pkl''"
     "path_join ''bundle'' ''params.pkl'' = ''bundle/params.pkl''"
    by (simp_all add: path_join_def)
  have 3: "save_model toy None ''bundle/weights.pkl'' ''bundle/params.pkl''
       [''bundle/preprocessor.pkl'' \<mapsto> PreprocessorBlob []] = Inl (CollaboratorError ''no model to save'')"
    by (simp add: toy_def)
  from save_without_model [OF m, of toy "''bundle''" Map.empty] 1 2 3 m
  show ?thesis by simp
qed

subsection \<open>C8: repeated inference\<close>





text \<open>
  Without that contract two calls in a row can differ: a preprocessor whose transform
  counts its calls, and whose inverse transform depends on the count.
\<close>

lemma drifting_not_repeatable:
  "\<not> read_only drifting \<and>
   fst (predict_sentence_st drifting drifting_object [''John'']) = Inr [''B-PER''] \<and>
   fst (predict_sentence_st drifting
          (snd (predict_sentence_st drifting drifting_object [''John''])) [''John''])
     = Inr [''O'']"
proof -
  have "\<not> read_only drifting"
    by (simp add: read_only_def drifting_def)
  then show ?thesis
    by (simp add: predict_sentence_st_def drifting_def drifting_object_def toy_tag_def Let_def)
qed



subsection \<open>C7: save, then load\<close>








subsection \<open>C10: sequences of different lengths in predict_to_iob\<close>

text \<open>
  The inner loop stops at the shortest of the three sequences. For a sentence on which
  \<^verbatim>\<open>predict_sentence\<close> returns, the loop raises nothing and makes one token write for
  each of the first min(tokens, predictions, auxiliary entries) tokens, in order, and
  then writes the newline that follows the sentence, whatever happens on the sentences
  after it.
\<close>

lemma length_token_writes:
  "length (token_writes sentence predictions sent_ctags) =
     min (length sentence) (min (length predictions) (length sent_ctags))"
  by (simp add: token_writes_def)

lemma token_writes_nth:
  "i < min (length sentence) (min (length predictions) (length sent_ctags)) \<Longrightarrow>
   token_writes sentence predictions sent_ctags ! i =
     to_write (sentence ! i) (predictions ! i) (sent_ctags ! i)"
  by (simp add: token_writes_def)

lemma iob_writes_shortest:
  assumes "predict_sentence E self sentence = Inr predictions"
  shows "iob_writes E self ((sentence, sent_ctags) # rest) =
           (token_writes sentence predictions sent_ctags @ [[newline]] @
              fst (iob_writes E self rest),
            snd (iob_writes E self rest))"
  using assms by (simp split: prod.splits)

text \<open>
  Claim C10 says that for a sentence whose predicted tags or auxiliary columns are fewer
  than its tokens, \<^verbatim>\<open>predict_to_iob\<close> completes without error and emits exactly
  min(tokens, predictions, auxiliary entries) output lines for it. The code makes that
  many token writes, but a write for a non-empty tag carries no line terminator (the
  defect of C2), so they are not that many lines. Here: three tokens, three predictions,
  two auxiliary entries; the call returns, two token writes are made, and the text
  written for the sentence is the single line \<^verbatim>\<open>a Bb I\<close>.
\<close>

theorem iob_writes_truncated_lines:
  "length [[], [] :: string list] < length [''a'', ''b'', ''c''] \<and>
   predict_sentence toy (toy_fresh\<lparr>model := Some [(''a'', ''B''), (''b'', ''I'')]\<rparr>)
      [''a'', ''b'', ''c''] = Inr [''B'', ''I'', ''O''] \<and>
   min (length [''a'', ''b'', ''c''])
     (min (length [''B'', ''I'', ''O'']) (length [[], [] :: string list])) = 2 \<and>
   iob_writes toy (toy_fresh\<lparr>model := Some [(''a'', ''B''), (''b'', ''I'')]\<rparr>)
      [([''a'', ''b'', ''c''], [[], []])] = ([''a B'', ''b I'', [newline]], None) \<and>
   concat [''a B'', ''b I'', [newline]] = ''a Bb I'' @ [newline] \<and>
   line_count (concat [''a B'', ''b I'', [newline]]) = 1"
  by (simp add: predict_sentence_def toy_def toy_fresh_def toy_tag_def token_writes_def
      to_write_def line_count_def newline_def)

subsection \<open>C2: the lines predict_to_iob writes\<close>

text \<open>
  Claim C2 says that \<^verbatim>\<open>predict_to_iob\<close> writes one line per token (token, auxiliary
  columns, predicted tag, an empty tag replaced by \<^verbatim>\<open>O\<close>) and a blank line between
  sentence blocks. The branch of \<^verbatim>\<open>to_write\<close> for an empty tag ends its string with a
  newline; the branch for a non-empty tag does not. On the two-sentence corpus of five
  tokens, with the predictions \<^verbatim>\<open>B-PER O O B-LOC\<close> and \<^verbatim>\<open>O\<close>, the text written has two
  lines: the four tokens of the first sentence share one line, and no blank line
  separates the two sentences.
\<close>

theorem predict_to_iob_runs_lines_together:
  "predict_sentence toy toy_trained [''John'', ''lives'', ''in'', ''Paris'']
     = Inr [''B-PER'', ''O'', ''O'', ''B-LOC''] \<and>
   predict_sentence toy toy_trained [''Hi''] = Inr [''O''] \<and>
   predict_to_iob toy toy_trained ''in.iob'' ''out.iob'' [''in.iob'' \<mapsto> spec_corpus] =
     (''John NNP B-PERlives VBZ Oin IN OParis NNP B-LOC'' @ [newline] @
      ''Hi UH O'' @ [newline], None) \<and>
   line_count (''John NNP B-PERlives VBZ Oin IN OParis NNP B-LOC'' @ [newline] @
          ''Hi UH O'' @ [newline]) = 2"
  by (simp add: predict_to_iob_def predict_sentence_def toy_def toy_trained_def toy_fresh_def
      toy_tag_def spec_corpus_def token_writes_def to_write_def line_count_def newline_def)

end
